theory Spec2Isabelle
  imports Complex_Main "HOL-Library.Multiset"
begin

section \<open>JavaScript numbers\<close>

text \<open>
  A JavaScript number is a finite value, one of the two infinities, or NaN. Finite
  values are modelled as exact reals: rounding and overflow of IEEE doubles are outside
  this model, and so is the sign of zero (a zero divisor is read as \<open>+0\<close>; every zero
  divisor of the analysis engine is a count, a sum of squares or a square root).
  Division by zero does not raise in JavaScript: it yields an infinity or NaN, and every
  comparison with NaN is false.
\<close>

datatype jsnum = Fin real | PInf | NInf | NaN

fun js_neg :: "jsnum \<Rightarrow> jsnum" where
  "js_neg (Fin a) = Fin (- a)"
| "js_neg PInf = NInf"
| "js_neg NInf = PInf"
| "js_neg NaN = NaN"

fun js_add :: "jsnum \<Rightarrow> jsnum \<Rightarrow> jsnum" where
  "js_add (Fin a) (Fin b) = Fin (a + b)"
| "js_add (Fin a) PInf = PInf"
| "js_add (Fin a) NInf = NInf"
| "js_add (Fin a) NaN = NaN"
| "js_add PInf (Fin b) = PInf"
| "js_add PInf PInf = PInf"
| "js_add PInf NInf = NaN"
| "js_add PInf NaN = NaN"
| "js_add NInf (Fin b) = NInf"
| "js_add NInf PInf = NaN"
| "js_add NInf NInf = NInf"
| "js_add NInf NaN = NaN"
| "js_add NaN b = NaN"

definition js_sub :: "jsnum \<Rightarrow> jsnum \<Rightarrow> jsnum" where
  "js_sub a b = js_add a (js_neg b)"

text \<open>The sign of an infinity after multiplication or division by a finite value.\<close>

definition inf_signed :: "bool \<Rightarrow> jsnum" where
  "inf_signed positive = (if positive then PInf else NInf)"

fun js_mul :: "jsnum \<Rightarrow> jsnum \<Rightarrow> jsnum" where
  "js_mul (Fin a) (Fin b) = Fin (a * b)"
| "js_mul (Fin a) PInf = (if a = 0 then NaN else inf_signed (0 < a))"
| "js_mul (Fin a) NInf = (if a = 0 then NaN else inf_signed (a < 0))"
| "js_mul (Fin a) NaN = NaN"
| "js_mul PInf (Fin b) = (if b = 0 then NaN else inf_signed (0 < b))"
| "js_mul PInf PInf = PInf"
| "js_mul PInf NInf = NInf"
| "js_mul PInf NaN = NaN"
| "js_mul NInf (Fin b) = (if b = 0 then NaN else inf_signed (b < 0))"
| "js_mul NInf PInf = NInf"
| "js_mul NInf NInf = PInf"
| "js_mul NInf NaN = NaN"
| "js_mul NaN b = NaN"

fun js_div :: "jsnum \<Rightarrow> jsnum \<Rightarrow> jsnum" where
  "js_div (Fin a) (Fin b) =
     (if b = 0 then (if a = 0 then NaN else inf_signed (0 < a)) else Fin (a / b))"
| "js_div (Fin a) PInf = Fin 0"
| "js_div (Fin a) NInf = Fin 0"
| "js_div (Fin a) NaN = NaN"
| "js_div PInf (Fin b) = inf_signed (0 \<le> b)"
| "js_div PInf PInf = NaN"
| "js_div PInf NInf = NaN"
| "js_div PInf NaN = NaN"
| "js_div NInf (Fin b) = inf_signed (b < 0)"
| "js_div NInf PInf = NaN"
| "js_div NInf NInf = NaN"
| "js_div NInf NaN = NaN"
| "js_div NaN b = NaN"

fun Math_abs :: "jsnum \<Rightarrow> jsnum" where
  "Math_abs (Fin a) = Fin \<bar>a\<bar>"
| "Math_abs PInf = PInf"
| "Math_abs NInf = PInf"
| "Math_abs NaN = NaN"

fun Math_sqrt :: "jsnum \<Rightarrow> jsnum" where
  "Math_sqrt (Fin a) = (if a < 0 then NaN else Fin (sqrt a))"
| "Math_sqrt PInf = PInf"
| "Math_sqrt NInf = NaN"
| "Math_sqrt NaN = NaN"

text \<open>\<open>Math.pow(v, 2)\<close>: the square; an infinity squares to \<open>+Infinity\<close>.\<close>

definition Math_pow2 :: "jsnum \<Rightarrow> jsnum" where
  "Math_pow2 v = js_mul v v"

text \<open>The comparison \<open>a > b\<close>; false as soon as one side is NaN.\<close>

fun js_gt :: "jsnum \<Rightarrow> jsnum \<Rightarrow> bool" where
  "js_gt (Fin a) (Fin b) = (b < a)"
| "js_gt (Fin a) NInf = True"
| "js_gt PInf (Fin b) = True"
| "js_gt PInf NInf = True"
| "js_gt a b = False"


text \<open>\<open>Math.min(a, b)\<close>: NaN as soon as one argument is NaN.\<close>

definition Math_min :: "jsnum \<Rightarrow> jsnum \<Rightarrow> jsnum" where
  "Math_min a b = (if a = NaN \<or> b = NaN then NaN else if js_gt a b then b else a)"

definition isNaN :: "jsnum \<Rightarrow> bool" where
  "isNaN v = (v = NaN)"

fun number_isFinite :: "jsnum \<Rightarrow> bool" where
  "number_isFinite (Fin a) = True"
| "number_isFinite v = False"

text \<open>\<open>xs.reduce((a, b) => a + b, 0)\<close>.\<close>

definition js_sum :: "jsnum list \<Rightarrow> jsnum" where
  "js_sum xs = foldl js_add (Fin 0) xs"

text \<open>\<open>ys[i]\<close> inside an arithmetic expression: a read past the end is \<open>undefined\<close>,
  which arithmetic converts to NaN.\<close>

definition js_index :: "jsnum list \<Rightarrow> nat \<Rightarrow> jsnum" where
  "js_index ys i = (if i < length ys then ys ! i else NaN)"

section \<open>Values, records and the host environment\<close>

text \<open>
  A cell of a record is a scalar. A dataset is an array whose elements are records; an
  element may also be \<open>null\<close> (\<open>data: any[]\<close>), and reading a property of \<open>null\<close> raises
  a TypeError. A record is the list of its properties in the order \<open>Object.keys\<close>
  returns them; its keys are distinct.
\<close>

datatype jsval = VUndefined | VNull | VBool bool | VNum jsnum | VStr string

datatype jsrow = NullRow | Row "(string \<times> jsval) list"

type_synonym dataset = "jsrow list"

datatype error = TypeError | LibraryError

text \<open>What a library hands back where the source types it as \<open>any\<close>.\<close>

datatype jsany = ANum jsnum | AArr "jsany list" | AUndefined

record kmeans_result =
  clusters :: "jsany list"
  centroids :: "jsany list"

text \<open>
  The host: the string grammars of the JavaScript runtime (\<open>parseFloat\<close> and \<open>Number\<close>
  applied to a string, \<open>Date.parse\<close>, whose accepted formats are implementation-defined)
  and the \<open>kmeans\<close> function of the ml-kmeans package, which starts from a random
  initialisation and may throw. They are parameters of every function below.
\<close>

record host =
  parseFloat_string :: "string \<Rightarrow> jsnum"
  Number_string :: "string \<Rightarrow> jsnum"
  Date_parse :: "string \<Rightarrow> jsnum"
  kmeans :: "jsnum list list \<Rightarrow> nat \<Rightarrow> error + kmeans_result"

text \<open>\<open>row[key]\<close>: a missing property reads as \<open>undefined\<close>.\<close>

definition lookup :: "(string \<times> jsval) list \<Rightarrow> string \<Rightarrow> jsval" where
  "lookup kvs key = (case map_of kvs key of None \<Rightarrow> VUndefined | Some v \<Rightarrow> v)"

fun get_prop :: "jsrow \<Rightarrow> string \<Rightarrow> error + jsval" where
  "get_prop NullRow key = Inl TypeError"
| "get_prop (Row kvs) key = Inr (lookup kvs key)"

text \<open>\<open>parseFloat(v)\<close> converts \<open>v\<close> to a string and parses a decimal prefix. A number
  prints and parses back to itself; \<open>undefined\<close>, \<open>null\<close> and booleans print as words.\<close>

fun parseFloat :: "host \<Rightarrow> jsval \<Rightarrow> jsnum" where
  "parseFloat h (VNum v) = v"
| "parseFloat h (VStr s) = parseFloat_string h s"
| "parseFloat h v = NaN"

fun ToNumber :: "host \<Rightarrow> jsval \<Rightarrow> jsnum" where
  "ToNumber h VUndefined = NaN"
| "ToNumber h VNull = Fin 0"
| "ToNumber h (VBool b) = Fin (if b then 1 else 0)"
| "ToNumber h (VNum v) = v"
| "ToNumber h (VStr s) = Number_string h s"

text \<open>The global \<open>isFinite(v)\<close> converts its argument with \<open>Number\<close> first.\<close>

definition isFinite :: "host \<Rightarrow> jsval \<Rightarrow> bool" where
  "isFinite h v = number_isFinite (ToNumber h v)"

fun truthy :: "jsval \<Rightarrow> bool" where
  "truthy VUndefined = False"
| "truthy VNull = False"
| "truthy (VBool b) = b"
| "truthy (VNum v) = (v \<noteq> NaN \<and> v \<noteq> Fin 0)"
| "truthy (VStr s) = (s \<noteq> [])"

text \<open>
  \<open>new Date(v).getTime()\<close>. The constructor parses a string and converts anything else
  to a number; the time value is then clipped: a non-finite value or one beyond
  8.64e15 milliseconds is an invalid date (NaN), any other is truncated to an integer.
\<close>

definition js_trunc :: "real \<Rightarrow> real" where
  "js_trunc t = (if 0 \<le> t then of_int \<lfloor>t\<rfloor> else of_int \<lceil>t\<rceil>)"

fun TimeClip :: "jsnum \<Rightarrow> jsnum" where
  "TimeClip (Fin t) = (if 8640000000000000 < \<bar>t\<bar> then NaN else Fin (js_trunc t))"
| "TimeClip v = NaN"

fun Date_getTime :: "host \<Rightarrow> jsval \<Rightarrow> jsnum" where
  "Date_getTime h (VStr s) = TimeClip (Date_parse h s)"
| "Date_getTime h v = TimeClip (ToNumber h v)"

section \<open>Exceptions\<close>

text \<open>A callback of \<open>map\<close> that throws aborts the whole \<open>map\<close> at the first throw.\<close>

fun mapE :: "('a \<Rightarrow> error + 'b) \<Rightarrow> 'a list \<Rightarrow> error + 'b list" where
  "mapE f [] = Inr []"
| "mapE f (x # xs) =
     (case f x of
        Inl e \<Rightarrow> Inl e
      | Inr y \<Rightarrow> (case mapE f xs of Inl e \<Rightarrow> Inl e | Inr ys \<Rightarrow> Inr (y # ys)))"

fun filterE :: "('a \<Rightarrow> error + bool) \<Rightarrow> 'a list \<Rightarrow> error + 'a list" where
  "filterE p [] = Inr []"
| "filterE p (x # xs) =
     (case p x of
        Inl e \<Rightarrow> Inl e
      | Inr b \<Rightarrow>
          (case filterE p xs of Inl e \<Rightarrow> Inl e | Inr ys \<Rightarrow> Inr (if b then x # ys else ys)))"

text \<open>
  \<open>try { body } catch (error) { console.error(...) }\<close> around a body that pushes the
  insights it found: a throw leaves nothing pushed, and the handler only logs.
\<close>

definition try_catch :: "error + 'a list \<Rightarrow> 'a list" where
  "try_catch r = (case r of Inl e \<Rightarrow> [] | Inr xs \<Rightarrow> xs)"

section \<open>Sorting\<close>

text \<open>
  \<open>Array.prototype.sort(cmp)\<close> is a stable sort: an element moves behind another only
  if the comparator says so with a positive number. Insertion from the right is such a
  sort; it is the result of every stable sort when the comparator is consistent.
\<close>

fun js_insert :: "('a \<Rightarrow> 'a \<Rightarrow> jsnum) \<Rightarrow> 'a \<Rightarrow> 'a list \<Rightarrow> 'a list" where
  "js_insert cmp x [] = [x]"
| "js_insert cmp x (y # ys) =
     (if js_gt (cmp x y) (Fin 0) then y # js_insert cmp x ys else x # y # ys)"

definition js_sort :: "('a \<Rightarrow> 'a \<Rightarrow> jsnum) \<Rightarrow> 'a list \<Rightarrow> 'a list" where
  "js_sort cmp xs = foldr (js_insert cmp) xs []"

section \<open>SimpleLinearRegression\<close>

record regression =
  slope :: jsnum
  intercept :: jsnum

definition fit :: "jsnum list \<Rightarrow> jsnum list \<Rightarrow> regression" where
  "fit x y =
     (let n = Fin (real (length x));
          sumX = js_sum x;
          sumY = js_sum y;
          sumXY = foldl (\<lambda>total (xi, i). js_add total (js_mul xi (js_index y i)))
                    (Fin 0) (zip x [0..<length x]);
          sumXX = foldl (\<lambda>total xi. js_add total (js_mul xi xi)) (Fin 0) x;
          s = js_div (js_sub (js_mul n sumXY) (js_mul sumX sumY))
                (js_sub (js_mul n sumXX) (js_mul sumX sumX))
      in \<lparr>slope = s, intercept = js_div (js_sub sumY (js_mul s sumX)) n\<rparr>)"

definition predict :: "regression \<Rightarrow> jsnum \<Rightarrow> jsnum" where
  "predict r x = js_add (js_mul (slope r) x) (intercept r)"

definition score :: "regression \<Rightarrow> jsnum list \<Rightarrow> jsnum list \<Rightarrow> jsnum" where
  "score r x y =
     (let yPred = map (predict r) x;
          yMean = js_div (js_sum y) (Fin (real (length y)));
          ssRes = foldl (\<lambda>total (yi, i). js_add total (Math_pow2 (js_sub yi (js_index yPred i))))
                    (Fin 0) (zip y [0..<length y]);
          ssTot = foldl (\<lambda>total yi. js_add total (Math_pow2 (js_sub yi yMean))) (Fin 0) y
      in js_sub (Fin 1) (js_div ssRes ssTot))"

section \<open>The statistics library\<close>

text \<open>
  Modelled from the spec: the functions \<open>mean\<close>, \<open>standardDeviation\<close> and
  \<open>sampleCorrelation\<close> of the simple-statistics package, which is not among the sources.
  The mean is the sum over the count; the standard deviation is the population one; the
  sample correlation is Pearson's, the sample covariance over the two sample standard
  deviations. Each throws on a sample that is too short, and the covariance on samples of
  different lengths. The library adds with a compensation term against rounding; on exact
  reals that is the plain sum.
\<close>

definition stats_mean :: "jsnum list \<Rightarrow> error + jsnum" where
  "stats_mean x =
     (if x = [] then Inl LibraryError else Inr (js_div (js_sum x) (Fin (real (length x)))))"

definition sumSquaredDeviations :: "jsnum list \<Rightarrow> jsnum \<Rightarrow> jsnum" where
  "sumSquaredDeviations x m = js_sum (map (\<lambda>v. js_mul (js_sub v m) (js_sub v m)) x)"

definition stats_standardDeviation :: "jsnum list \<Rightarrow> error + jsnum" where
  "stats_standardDeviation x =
     (if length x = 1 then Inr (Fin 0)
      else case stats_mean x of
             Inl e \<Rightarrow> Inl e
           | Inr m \<Rightarrow>
               Inr (Math_sqrt (js_div (sumSquaredDeviations x m) (Fin (real (length x))))))"

definition stats_sampleStandardDeviation :: "jsnum list \<Rightarrow> error + jsnum" where
  "stats_sampleStandardDeviation x =
     (if length x < 2 then Inl LibraryError
      else case stats_mean x of
             Inl e \<Rightarrow> Inl e
           | Inr m \<Rightarrow>
               Inr (Math_sqrt (js_div (sumSquaredDeviations x m) (Fin (real (length x) - 1)))))"

definition stats_sampleCovariance :: "jsnum list \<Rightarrow> jsnum list \<Rightarrow> error + jsnum" where
  "stats_sampleCovariance x y =
     (if length x \<noteq> length y \<or> length x < 2 then Inl LibraryError
      else case stats_mean x of
             Inl e \<Rightarrow> Inl e
           | Inr xmean \<Rightarrow>
               (case stats_mean y of
                  Inl e \<Rightarrow> Inl e
                | Inr ymean \<Rightarrow>
                    Inr (js_div
                          (js_sum (map (\<lambda>(xi, yi). js_mul (js_sub xi xmean) (js_sub yi ymean))
                             (zip x y)))
                          (Fin (real (length x) - 1)))))"

definition stats_sampleCorrelation :: "jsnum list \<Rightarrow> jsnum list \<Rightarrow> error + jsnum" where
  "stats_sampleCorrelation x y =
     (case stats_sampleCovariance x y of
        Inl e \<Rightarrow> Inl e
      | Inr cov \<Rightarrow>
          (case stats_sampleStandardDeviation x of
             Inl e \<Rightarrow> Inl e
           | Inr xstd \<Rightarrow>
               (case stats_sampleStandardDeviation y of
                  Inl e \<Rightarrow> Inl e
                | Inr ystd \<Rightarrow> Inr (js_div (js_div cov xstd) ystd))))"

section \<open>Insights\<close>

text \<open>
  An insight carries its type, title, confidence and data. The description, a sentence
  that prints the same figures with \<open>toFixed\<close>, is left out: no number method used to
  build it throws, and nothing reads it back.
\<close>

datatype insight_type = Trend | Correlation | Anomaly | Prediction | Segment

record tspoint =
  ts_date :: jsnum
  ts_value :: jsnum

record segment =
  seg_id :: nat
  seg_size :: jsval
  seg_centroid :: jsany
  seg_points :: jsany

datatype insight_data =
    TrendData string jsnum jsnum "tspoint list"
  | CorrelationData string string jsnum string string
  | AnomalyData string "(jsval \<times> jsrow) list" jsnum jsnum
  | SegmentData "string list" "segment list" nat
  | PredictionData string jsnum jsnum jsnum jsnum

record insight =
  itype :: insight_type
  title :: string
  confidence :: jsnum
  idata :: insight_data

text \<open>A count printed in decimal inside a template string.\<close>

fun show_nat :: "nat \<Rightarrow> string" where
  "show_nat n =
     (if n < 10 then [''0123456789'' ! n]
      else show_nat (n div 10) @ [''0123456789'' ! (n mod 10)])"

declare show_nat.simps [simp del]

section \<open>Column classification\<close>

text \<open>Only the first record is inspected. \<open>Object.keys(null)\<close> raises a TypeError.\<close>

fun getNumericColumns :: "host \<Rightarrow> dataset \<Rightarrow> error + string list" where
  "getNumericColumns h [] = Inr []"
| "getNumericColumns h (NullRow # rest) = Inl TypeError"
| "getNumericColumns h (Row firstRow # rest) =
     Inr (filter (\<lambda>key. \<not> isNaN (parseFloat h (lookup firstRow key))
                        \<and> isFinite h (lookup firstRow key))
            (map fst firstRow))"

definition isDateValue :: "host \<Rightarrow> jsval \<Rightarrow> bool" where
  "isDateValue h v = (if \<not> truthy v then False else \<not> isNaN (Date_getTime h v))"

fun getDateColumn :: "host \<Rightarrow> dataset \<Rightarrow> error + string option" where
  "getDateColumn h [] = Inr None"
| "getDateColumn h (NullRow # rest) = Inl TypeError"
| "getDateColumn h (Row firstRow # rest) =
     Inr (find (\<lambda>key. isDateValue h (lookup firstRow key)) (map fst firstRow))"

text \<open>\<open>!dateColumn\<close>: \<open>null\<close> is falsy, and so is the empty string.\<close>

fun falsy_column :: "string option \<Rightarrow> bool" where
  "falsy_column None = True"
| "falsy_column (Some name) = (name = [])"

section \<open>Time series\<close>

definition byDate :: "tspoint \<Rightarrow> tspoint \<Rightarrow> jsnum" where
  "byDate a b = js_sub (ts_date a) (ts_date b)"

definition prepareTimeSeriesData ::
    "host \<Rightarrow> dataset \<Rightarrow> string \<Rightarrow> string \<Rightarrow> error + tspoint list" where
  "prepareTimeSeriesData h d dateColumn valueColumn =
     (case mapE (\<lambda>row.
              case get_prop row dateColumn of
                Inl e \<Rightarrow> Inl e
              | Inr dv \<Rightarrow>
                  (case get_prop row valueColumn of
                     Inl e \<Rightarrow> Inl e
                   | Inr v \<Rightarrow> Inr \<lparr>ts_date = Date_getTime h dv, ts_value = parseFloat h v\<rparr>)) d of
        Inl e \<Rightarrow> Inl e
      | Inr points \<Rightarrow>
          Inr (js_sort byDate
                 (filter (\<lambda>point. \<not> isNaN (ts_date point) \<and> \<not> isNaN (ts_value point)) points)))"

record trend =
  trend_slope :: jsnum
  trend_rSquared :: jsnum
  trend_direction :: string

definition indices :: "'a list \<Rightarrow> jsnum list" where
  "indices xs = map (\<lambda>i. Fin (real i)) [0..<length xs]"

definition calculateTrend :: "tspoint list \<Rightarrow> trend" where
  "calculateTrend timeSeriesData =
     (let x = indices timeSeriesData;
          y = map ts_value timeSeriesData;
          r = fit x y;
          rSquared = score r x y
      in \<lparr>trend_slope = slope r, trend_rSquared = rSquared,
          trend_direction = (if js_gt (slope r) (Fin 0) then ''Upward'' else ''Downward'')\<rparr>)"

section \<open>The five analyzers\<close>

subsection \<open>Trends\<close>

text \<open>The object literal pushed for a column whose slope passes the threshold.\<close>

definition trend_insight :: "string \<Rightarrow> trend \<Rightarrow> tspoint list \<Rightarrow> insight" where
  "trend_insight column t timeSeriesData =
     \<lparr>itype = Trend,
      title = trend_direction t @ '' Trend in '' @ column,
      confidence = Math_min (js_mul (trend_rSquared t) (Fin 100)) (Fin 95),
      idata = TrendData column (trend_slope t) (trend_rSquared t) timeSeriesData\<rparr>"

text \<open>The body of the \<open>try\<close> block of the loop over the numeric columns.\<close>

definition trend_of_column :: "host \<Rightarrow> dataset \<Rightarrow> string \<Rightarrow> string \<Rightarrow> error + insight list" where
  "trend_of_column h d dateColumn column =
     (case prepareTimeSeriesData h d dateColumn column of
        Inl e \<Rightarrow> Inl e
      | Inr timeSeriesData \<Rightarrow>
          if length timeSeriesData < 3 then Inr []
          else let t = calculateTrend timeSeriesData in
            if js_gt (Math_abs (trend_slope t)) (Fin (1 / 100))
            then Inr [trend_insight column t timeSeriesData]
            else Inr [])"

definition identifyTrends :: "host \<Rightarrow> dataset \<Rightarrow> error + insight list" where
  "identifyTrends h d =
     (case getNumericColumns h d of
        Inl e \<Rightarrow> Inl e
      | Inr numericColumns \<Rightarrow>
          (case getDateColumn h d of
             Inl e \<Rightarrow> Inl e
           | Inr dateColumn \<Rightarrow>
               if falsy_column dateColumn \<or> length numericColumns = 0 then Inr []
               else Inr (concat (map (\<lambda>column. try_catch (trend_of_column h d (the dateColumn) column))
                                  numericColumns))))"

subsection \<open>Correlations\<close>

definition column_values :: "host \<Rightarrow> dataset \<Rightarrow> string \<Rightarrow> error + jsnum list" where
  "column_values h d column =
     (case mapE (\<lambda>row. case get_prop row column of
                          Inl e \<Rightarrow> Inl e
                        | Inr v \<Rightarrow> Inr (parseFloat h v)) d of
        Inl e \<Rightarrow> Inl e
      | Inr vs \<Rightarrow> Inr (filter (\<lambda>v. \<not> isNaN v) vs))"

definition capitalize :: "string \<Rightarrow> string" where
  "capitalize s = (if s = ''strong'' then ''Strong'' else if s = ''moderate'' then ''Moderate'' else s)"

definition correlation_insight :: "string \<Rightarrow> string \<Rightarrow> jsnum \<Rightarrow> insight" where
  "correlation_insight col1 col2 correlation =
     (let strength = (if js_gt (Math_abs correlation) (Fin (4 / 5)) then ''strong'' else ''moderate'');
          direction = (if js_gt correlation (Fin 0) then ''positive'' else ''negative'')
      in \<lparr>itype = Correlation,
          title = capitalize strength @ '' '' @ direction @ '' correlation'',
          confidence = js_mul (Math_abs correlation) (Fin 100),
          idata = CorrelationData col1 col2 correlation strength direction\<rparr>)"

definition correlation_of_pair :: "host \<Rightarrow> dataset \<Rightarrow> string \<Rightarrow> string \<Rightarrow> error + insight list" where
  "correlation_of_pair h d col1 col2 =
     (case column_values h d col1 of
        Inl e \<Rightarrow> Inl e
      | Inr values1 \<Rightarrow>
          (case column_values h d col2 of
             Inl e \<Rightarrow> Inl e
           | Inr values2 \<Rightarrow>
               if length values1 \<noteq> length values2 \<or> length values1 < 3 then Inr []
               else (case stats_sampleCorrelation values1 values2 of
                       Inl e \<Rightarrow> Inl e
                     | Inr correlation \<Rightarrow>
                         if js_gt (Math_abs correlation) (Fin (1 / 2))
                         then Inr [correlation_insight col1 col2 correlation]
                         else Inr [])))"

definition findCorrelations :: "host \<Rightarrow> dataset \<Rightarrow> error + insight list" where
  "findCorrelations h d =
     (case getNumericColumns h d of
        Inl e \<Rightarrow> Inl e
      | Inr numericColumns \<Rightarrow>
          if length numericColumns < 2 then Inr []
          else Inr (concat (map (\<lambda>i.
                      concat (map (\<lambda>j. try_catch (correlation_of_pair h d
                                                    (numericColumns ! i) (numericColumns ! j)))
                                [i + 1..<length numericColumns]))
                    [0..<length numericColumns])))"

subsection \<open>Anomalies\<close>

definition anomaly_insight ::
    "string \<Rightarrow> jsrow list \<Rightarrow> (jsval \<times> jsrow) list \<Rightarrow> jsnum list \<Rightarrow> jsnum \<Rightarrow> jsnum \<Rightarrow> insight" where
  "anomaly_insight column anomalies listed vs mean threshold =
     \<lparr>itype = Anomaly,
      title = show_nat (length anomalies) @ '' Anomal''
        @ (if length anomalies = 1 then ''y'' else ''ies'') @ '' in '' @ column,
      confidence = Math_min (js_mul (js_div (Fin (real (length anomalies))) (Fin (real (length vs))))
                     (Fin 500)) (Fin 90),
      idata = AnomalyData column listed mean threshold\<rparr>"

definition anomaly_of_column :: "host \<Rightarrow> dataset \<Rightarrow> string \<Rightarrow> error + insight list" where
  "anomaly_of_column h d column =
     (case column_values h d column of
        Inl e \<Rightarrow> Inl e
      | Inr vs \<Rightarrow>
          if length vs < 10 then Inr []
          else (case stats_mean vs of
                  Inl e \<Rightarrow> Inl e
                | Inr mean \<Rightarrow>
                    (case stats_standardDeviation vs of
                       Inl e \<Rightarrow> Inl e
                     | Inr stdDev \<Rightarrow>
                         let threshold = js_mul (Fin 2) stdDev in
                         (case filterE (\<lambda>row.
                                  case get_prop row column of
                                    Inl e \<Rightarrow> Inl e
                                  | Inr v \<Rightarrow>
                                      Inr (\<not> isNaN (parseFloat h v)
                                           \<and> js_gt (Math_abs (js_sub (parseFloat h v) mean)) threshold)) d of
                            Inl e \<Rightarrow> Inl e
                          | Inr anomalies \<Rightarrow>
                              if 0 < length anomalies then
                                (case mapE (\<lambda>row. case get_prop row column of
                                                     Inl e \<Rightarrow> Inl e
                                                   | Inr v \<Rightarrow> Inr (v, row)) anomalies of
                                   Inl e \<Rightarrow> Inl e
                                 | Inr listed \<Rightarrow>
                                     Inr [anomaly_insight column anomalies listed vs mean threshold])
                              else Inr []))))"

definition detectAnomalies :: "host \<Rightarrow> dataset \<Rightarrow> error + insight list" where
  "detectAnomalies h d =
     (case getNumericColumns h d of
        Inl e \<Rightarrow> Inl e
      | Inr numericColumns \<Rightarrow>
          Inr (concat (map (\<lambda>column. try_catch (anomaly_of_column h d column)) numericColumns)))"

subsection \<open>Segmentation\<close>

text \<open>\<open>v || 0\<close>: a falsy number (0 or NaN) is replaced by 0.\<close>

definition or_zero :: "jsnum \<Rightarrow> jsnum" where
  "or_zero v = (if v = NaN \<or> v = Fin 0 then Fin 0 else v)"

text \<open>\<open>cluster.length\<close> where \<open>cluster\<close> is whatever the library returned.\<close>

fun any_length :: "jsany \<Rightarrow> jsval" where
  "any_length (AArr xs) = VNum (Fin (real (length xs)))"
| "any_length a = VUndefined"

definition any_index :: "jsany list \<Rightarrow> nat \<Rightarrow> jsany" where
  "any_index xs i = (if i < length xs then xs ! i else AUndefined)"

definition segments_of :: "kmeans_result \<Rightarrow> segment list" where
  "segments_of result =
     map (\<lambda>(cluster, index).
            \<lparr>seg_id = index + 1, seg_size = any_length cluster,
             seg_centroid = any_index (centroids result) index, seg_points = cluster\<rparr>)
       (zip (clusters result) [0..<length (clusters result)])"

definition segment_insight :: "string \<Rightarrow> string \<Rightarrow> kmeans_result \<Rightarrow> nat \<Rightarrow> insight" where
  "segment_insight col1 col2 result k =
     \<lparr>itype = Segment,
      title = ''Data Segmented into '' @ show_nat k @ '' Groups'',
      confidence = Fin 75,
      idata = SegmentData [col1, col2] (segments_of result) k\<rparr>"

text \<open>The body of the \<open>try\<close> block.\<close>

definition segmentation_body :: "host \<Rightarrow> dataset \<Rightarrow> string list \<Rightarrow> error + insight list" where
  "segmentation_body h d numericColumns =
     (let col1 = numericColumns ! 0; col2 = numericColumns ! 1 in
      case mapE (\<lambda>row.
             case get_prop row col1 of
               Inl e \<Rightarrow> Inl e
             | Inr v1 \<Rightarrow>
                 (case get_prop row col2 of
                    Inl e \<Rightarrow> Inl e
                  | Inr v2 \<Rightarrow> Inr [or_zero (parseFloat h v1), or_zero (parseFloat h v2)])) d of
        Inl e \<Rightarrow> Inl e
      | Inr pairs \<Rightarrow>
          let points = filter (\<lambda>point. NaN \<notin> set point) pairs in
          if length points < 6 then Inr []
          else let k = min 3 (length points div 3) in
            (case kmeans h points k of
               Inl e \<Rightarrow> Inl e
             | Inr result \<Rightarrow> Inr [segment_insight col1 col2 result k]))"

definition performSegmentation :: "host \<Rightarrow> dataset \<Rightarrow> error + insight list" where
  "performSegmentation h d =
     (case getNumericColumns h d of
        Inl e \<Rightarrow> Inl e
      | Inr numericColumns \<Rightarrow>
          if length numericColumns < 2 \<or> length d < 10 then Inr []
          else Inr (try_catch (segmentation_body h d numericColumns)))"

subsection \<open>Predictions\<close>

definition prediction_insight :: "string \<Rightarrow> regression \<Rightarrow> jsnum \<Rightarrow> jsnum \<Rightarrow> insight" where
  "prediction_insight column r nextPeriodPrediction rSquared =
     \<lparr>itype = Prediction,
      title = ''Predicted Next Value for '' @ column,
      confidence = Math_min (js_mul rSquared (Fin 100)) (Fin 85),
      idata = PredictionData column nextPeriodPrediction rSquared (slope r) (intercept r)\<rparr>"

definition prediction_of_column ::
    "host \<Rightarrow> dataset \<Rightarrow> string \<Rightarrow> string \<Rightarrow> error + insight list" where
  "prediction_of_column h d dateColumn column =
     (case prepareTimeSeriesData h d dateColumn column of
        Inl e \<Rightarrow> Inl e
      | Inr timeSeriesData \<Rightarrow>
          if length timeSeriesData < 5 then Inr []
          else let x = indices timeSeriesData;
                   y = map ts_value timeSeriesData;
                   r = fit x y;
                   nextPeriodPrediction = predict r (Fin (real (length timeSeriesData)));
                   rSquared = score r x y
               in if js_gt rSquared (Fin (3 / 10))
                  then Inr [prediction_insight column r nextPeriodPrediction rSquared]
                  else Inr [])"

definition generatePredictions :: "host \<Rightarrow> dataset \<Rightarrow> error + insight list" where
  "generatePredictions h d =
     (case getNumericColumns h d of
        Inl e \<Rightarrow> Inl e
      | Inr numericColumns \<Rightarrow>
          (case getDateColumn h d of
             Inl e \<Rightarrow> Inl e
           | Inr dateColumn \<Rightarrow>
               if falsy_column dateColumn \<or> length numericColumns = 0 \<or> length d < 5 then Inr []
               else Inr (concat (map (\<lambda>column.
                           try_catch (prediction_of_column h d (the dateColumn) column))
                         numericColumns))))"

section \<open>The entry point\<close>

text \<open>
  One \<open>try\<close> block holds the five pushes: an analyzer that throws leaves what was pushed
  before it and skips the analyzers after it. The sort stands after the handler.
\<close>

definition byConfidenceDesc :: "insight \<Rightarrow> insight \<Rightarrow> jsnum" where
  "byConfidenceDesc a b = js_sub (confidence b) (confidence a)"

definition run_analyzers :: "host \<Rightarrow> dataset \<Rightarrow> insight list" where
  "run_analyzers h d =
     (case identifyTrends h d of
        Inl e \<Rightarrow> []
      | Inr trends \<Rightarrow>
          trends @
          (case findCorrelations h d of
             Inl e \<Rightarrow> []
           | Inr correlations \<Rightarrow>
               correlations @
               (case detectAnomalies h d of
                  Inl e \<Rightarrow> []
                | Inr anomalies \<Rightarrow>
                    anomalies @
                    (case performSegmentation h d of
                       Inl e \<Rightarrow> []
                     | Inr segments \<Rightarrow>
                         segments @
                         (case generatePredictions h d of
                            Inl e \<Rightarrow> []
                          | Inr predictions \<Rightarrow> predictions)))))"

definition generateInsights :: "host \<Rightarrow> dataset \<Rightarrow> error + insight list" where
  "generateInsights h d =
     (if length d = 0 then Inr []
      else Inr (js_sort byConfidenceDesc (run_analyzers h d)))"

section \<open>Notions used in the statements\<close>

subsection \<open>Datasets of records\<close>

text \<open>
  A dataset produced by the CSV and JSON readers holds records only. \<open>cell\<close> is the plain
  property read on such a row; on \<open>null\<close> it is left at \<open>undefined\<close> and never used.
\<close>

fun cell :: "jsrow \<Rightarrow> string \<Rightarrow> jsval" where
  "cell (Row kvs) key = lookup kvs key"
| "cell NullRow key = VUndefined"

fun is_record :: "jsrow \<Rightarrow> bool" where
  "is_record (Row kvs) = True"
| "is_record NullRow = False"

definition all_records :: "dataset \<Rightarrow> bool" where
  "all_records d = list_all is_record d"


text \<open>
  The filtered, chronologically sorted series of a value column against a date column, as
  \<open>prepareTimeSeriesData\<close> computes it on a dataset of records.
\<close>

definition series :: "host \<Rightarrow> dataset \<Rightarrow> string \<Rightarrow> string \<Rightarrow> tspoint list" where
  "series h d dateColumn valueColumn =
     js_sort byDate
       (filter (\<lambda>point. \<not> isNaN (ts_date point) \<and> \<not> isNaN (ts_value point))
          (map (\<lambda>row. \<lparr>ts_date = Date_getTime h (cell row dateColumn),
                        ts_value = parseFloat h (cell row valueColumn)\<rparr>) d))"


subsection \<open>Least squares over the reals\<close>

text \<open>
  The closed forms of the specification: slope \<open>(n \<Sigma>xy - \<Sigma>x \<Sigma>y) / (n \<Sigma>x\<^sup>2 - (\<Sigma>x)\<^sup>2)\<close>,
  intercept \<open>(\<Sigma>y - slope \<Sigma>x) / n\<close>, and the coefficient of determination
  \<open>1 - SS\<^sub>r\<^sub>e\<^sub>s / SS\<^sub>t\<^sub>o\<^sub>t\<close>.
\<close>

definition ls_den :: "real list \<Rightarrow> real" where
  "ls_den xs = real (length xs) * (\<Sum>x\<leftarrow>xs. x * x) - sum_list xs * sum_list xs"

definition ls_slope :: "real list \<Rightarrow> real list \<Rightarrow> real" where
  "ls_slope xs ys =
     (real (length xs) * (\<Sum>(x, y)\<leftarrow>zip xs ys. x * y) - sum_list xs * sum_list ys) / ls_den xs"

definition ls_intercept :: "real list \<Rightarrow> real list \<Rightarrow> real" where
  "ls_intercept xs ys = (sum_list ys - ls_slope xs ys * sum_list xs) / real (length xs)"

definition ss_res :: "real list \<Rightarrow> real list \<Rightarrow> real" where
  "ss_res xs ys = (\<Sum>(y, p)\<leftarrow>zip ys (map (\<lambda>x. ls_slope xs ys * x + ls_intercept xs ys) xs). (y - p)\<^sup>2)"

definition ss_tot :: "real list \<Rightarrow> real" where
  "ss_tot ys = (\<Sum>y\<leftarrow>ys. (y - sum_list ys / real (length ys))\<^sup>2)"


text \<open>The regressor of a series of \<open>n\<close> points: the sequence indices 0, 1, ..., n - 1.\<close>

definition idx :: "nat \<Rightarrow> real list" where
  "idx n = map real [0..<n]"


subsection \<open>Classes of numbers and of insights\<close>




subsection \<open>The pairing of the specification\<close>

text \<open>
  The specification correlates two columns over the rows where both values parse as numbers.
  This definition follows those words; the source filters each column on its own, in
  \<open>column_values\<close>.
\<close>

definition spec_paired_values :: "host \<Rightarrow> dataset \<Rightarrow> string \<Rightarrow> string \<Rightarrow> jsnum list \<times> jsnum list" where
  "spec_paired_values h d col1 col2 =
     (let rows = filter (\<lambda>row. \<not> isNaN (parseFloat h (cell row col1))
                             \<and> \<not> isNaN (parseFloat h (cell row col2))) d
      in (map (\<lambda>row. parseFloat h (cell row col1)) rows,
          map (\<lambda>row. parseFloat h (cell row col2)) rows))"

section \<open>Example datasets\<close>

text \<open>
  A host whose string parsers recognise nothing and whose \<open>kmeans\<close> puts every point in
  cluster 0. The datasets below hold numbers only, so the string parsers are never consulted.
\<close>

definition sample_host :: host where
  "sample_host =
     \<lparr>parseFloat_string = (\<lambda>s. NaN), Number_string = (\<lambda>s. NaN), Date_parse = (\<lambda>s. NaN),
      kmeans = (\<lambda>points k. Inr \<lparr>clusters = map (\<lambda>p. ANum (Fin 0)) points,
                                  centroids = replicate k (AArr [ANum (Fin 0), ANum (Fin 0)])\<rparr>)\<rparr>"

definition num :: "real \<Rightarrow> jsval" where
  "num r = VNum (Fin r)"


text \<open>Three records; \<open>t\<close> is both a numeric column and the date column.\<close>

definition trend_data :: dataset where
  "trend_data = [Row [(''t'', num 1), (''v'', num 10)],
                 Row [(''t'', num 2), (''v'', num 20)],
                 Row [(''t'', num 3), (''v'', num 30)]]"

text \<open>
  Five records whose date column has the empty name, as the CSV reader produces for a header
  line that starts with a comma, and a JSON object for the key \<open>""\<close>.
\<close>

definition unnamed_date_data :: dataset where
  "unnamed_date_data = [Row [('''', num 1), (''v'', num 10)],
                        Row [('''', num 2), (''v'', num 20)],
                        Row [('''', num 3), (''v'', num 30)],
                        Row [('''', num 4), (''v'', num 40)],
                        Row [('''', num 5), (''v'', num 50)]]"

text \<open>
  Five records with one missing value in each of two columns, in different rows: the two
  filtered value lists have the same length and pair values of different rows.
\<close>

definition misaligned_data :: dataset where
  "misaligned_data = [Row [(''A'', num 1), (''B'', num 1)],
                      Row [(''A'', num 4), (''B'', VNull)],
                      Row [(''A'', num 2), (''B'', num 2)],
                      Row [(''A'', num 3), (''B'', num 3)],
                      Row [(''A'', VNull), (''B'', num 0)]]"

text \<open>One record whose value lies beyond the range of time values, \<open>8.64e15\<close>.\<close>

definition large_number_data :: dataset where
  "large_number_data = [Row [(''big'', num 10000000000000000)]]"





text \<open>The three insights of \<open>trend_data\<close>.\<close>

definition example_trend_t :: insight where
  "example_trend_t =
     \<lparr>itype = Trend, title = ''Upward Trend in t'', confidence = Fin 95,
      idata = TrendData ''t'' (Fin 1) (Fin 1)
        [\<lparr>ts_date = Fin 1, ts_value = Fin 1\<rparr>, \<lparr>ts_date = Fin 2, ts_value = Fin 2\<rparr>,
         \<lparr>ts_date = Fin 3, ts_value = Fin 3\<rparr>]\<rparr>"

definition example_trend_v :: insight where
  "example_trend_v =
     \<lparr>itype = Trend, title = ''Upward Trend in v'', confidence = Fin 95,
      idata = TrendData ''v'' (Fin 10) (Fin 1)
        [\<lparr>ts_date = Fin 1, ts_value = Fin 10\<rparr>, \<lparr>ts_date = Fin 2, ts_value = Fin 20\<rparr>,
         \<lparr>ts_date = Fin 3, ts_value = Fin 30\<rparr>]\<rparr>"


section \<open>Arithmetic of JavaScript numbers\<close>

text \<open>When a sum, difference, product, quotient or square root is finite, and what a sum is when a term is not.\<close>

lemma number_isFinite_iff: "number_isFinite v \<longleftrightarrow> (\<exists>r. v = Fin r)"
  by (cases v) auto


lemma js_neg_Fin_iff: "js_neg a = Fin r \<longleftrightarrow> a = Fin (- r)"
  by (cases a) auto





lemma js_sub_Fin [simp]: "js_sub (Fin a) (Fin b) = Fin (a - b)"
  by (simp add: js_sub_def)

lemma Math_pow2_Fin [simp]: "Math_pow2 (Fin a) = Fin (a\<^sup>2)"
  by (simp add: Math_pow2_def power2_eq_square)

lemma foldl_js_add_Fin: "foldl js_add (Fin a) (map Fin rs) = Fin (a + sum_list rs)"
  by (induction rs arbitrary: a) (auto simp: add.assoc)

lemma js_sum_Fin: "js_sum (map Fin rs) = Fin (sum_list rs)"
  by (simp add: js_sum_def foldl_js_add_Fin)








section \<open>The sums of the regression as list sums\<close>

text \<open>The \<open>reduce\<close> calls of \<open>fit\<close> and \<open>score\<close>, which read the second array by index, are sums over the zipped arrays.\<close>

lemma foldl_add_map: "foldl (\<lambda>total z. js_add total (g z)) a zs = foldl js_add a (map g zs)"
  by (induction zs arbitrary: a) auto

lemma indexed_zip:
  "length x = length y \<Longrightarrow>
   map (\<lambda>(xi, i). f xi (js_index y i)) (zip x [0..<length x]) = map (\<lambda>(xi, yi). f xi yi) (zip x y)"
  by (rule nth_equalityI) (auto simp: js_index_def)

lemma sumXY_eq:
  assumes len: "length x = length y"
  shows "foldl (\<lambda>total (xi, i). js_add total (js_mul xi (js_index y i))) (Fin 0) (zip x [0..<length x])
         = js_sum (map (\<lambda>(xi, yi). js_mul xi yi) (zip x y))"
proof -
  let ?g = "\<lambda>(xi, i). js_mul xi (js_index y i)"
  have "(\<lambda>total (xi, i). js_add total (js_mul xi (js_index y i))) = (\<lambda>total z. js_add total (?g z))"
    by (auto simp: fun_eq_iff)
  then have "foldl (\<lambda>total (xi, i). js_add total (js_mul xi (js_index y i))) (Fin 0) (zip x [0..<length x])
      = foldl js_add (Fin 0) (map ?g (zip x [0..<length x]))"
    using foldl_add_map[of ?g "Fin 0" "zip x [0..<length x]"] by presburger
  also have "map ?g (zip x [0..<length x]) = map (\<lambda>(xi, yi). js_mul xi yi) (zip x y)"
    by (rule indexed_zip[OF len])
  finally show ?thesis unfolding js_sum_def .
qed

lemma sumXX_eq:
  "foldl (\<lambda>total xi. js_add total (js_mul xi xi)) (Fin 0) x = js_sum (map (\<lambda>xi. js_mul xi xi) x)"
  unfolding js_sum_def by (rule foldl_add_map)

lemma ssRes_eq:
  assumes len: "length y = length p"
  shows "foldl (\<lambda>total (yi, i). js_add total (Math_pow2 (js_sub yi (js_index p i)))) (Fin 0) (zip y [0..<length y])
         = js_sum (map (\<lambda>(yi, pi). Math_pow2 (js_sub yi pi)) (zip y p))"
proof -
  let ?g = "\<lambda>(yi, i). Math_pow2 (js_sub yi (js_index p i))"
  have "(\<lambda>total (yi, i). js_add total (Math_pow2 (js_sub yi (js_index p i)))) = (\<lambda>total z. js_add total (?g z))"
    by (auto simp: fun_eq_iff)
  then have "foldl (\<lambda>total (yi, i). js_add total (Math_pow2 (js_sub yi (js_index p i)))) (Fin 0) (zip y [0..<length y])
      = foldl js_add (Fin 0) (map ?g (zip y [0..<length y]))"
    using foldl_add_map[of ?g "Fin 0" "zip y [0..<length y]"] by presburger
  also have "map ?g (zip y [0..<length y]) = map (\<lambda>(yi, pi). Math_pow2 (js_sub yi pi)) (zip y p)"
    by (rule indexed_zip[OF len, of "\<lambda>a b. Math_pow2 (js_sub a b)"])
  finally show ?thesis unfolding js_sum_def .
qed

lemma ssTot_eq:
  "foldl (\<lambda>total yi. js_add total (Math_pow2 (js_sub yi m))) (Fin 0) y
   = js_sum (map (\<lambda>yi. Math_pow2 (js_sub yi m)) y)"
  unfolding js_sum_def by (rule foldl_add_map)

section \<open>The regression on finite data\<close>

text \<open>On finite samples \<open>fit\<close>, \<open>predict\<close> and \<open>score\<close> compute the closed forms over the reals.\<close>

lemma map2_Fin:
  "map (\<lambda>(a, b). f a b) (zip (map Fin xs) (map Fin ys)) = map (\<lambda>(a, b). f (Fin a) (Fin b)) (zip xs ys)"
  by (simp add: zip_map_map case_prod_unfold)

lemma map2_mul_Fin:
  "map (\<lambda>(a, b). js_mul a b) (zip (map Fin xs) (map Fin ys)) = map Fin (map (\<lambda>(a, b). a * b) (zip xs ys))"
  by (simp add: zip_map_map case_prod_unfold)

lemma map2_pow_Fin:
  "map (\<lambda>(yi, pi). Math_pow2 (js_sub yi pi)) (zip (map Fin ys) (map Fin ps))
   = map Fin (map (\<lambda>(y, p). (y - p)\<^sup>2) (zip ys ps))"
  by (simp add: zip_map_map case_prod_unfold)

lemma fit_Fin:
  assumes len: "length xs = length ys" and den: "ls_den xs \<noteq> 0" and ne: "xs \<noteq> []"
  shows "fit (map Fin xs) (map Fin ys) = \<lparr>slope = Fin (ls_slope xs ys), intercept = Fin (ls_intercept xs ys)\<rparr>"
proof -
  have l: "length (map Fin xs) = length (map Fin ys)" using len by simp
  have sxy: "foldl (\<lambda>total (xi, i). js_add total (js_mul xi (js_index (map Fin ys) i))) (Fin 0)
          (zip (map Fin xs) [0..<length (map Fin xs)])
        = Fin (\<Sum>(x, y)\<leftarrow>zip xs ys. x * y)"
    unfolding sumXY_eq[OF l] map2_mul_Fin js_sum_Fin ..
  have sxx: "foldl (\<lambda>total xi. js_add total (js_mul xi xi)) (Fin 0) (map Fin xs) = Fin (\<Sum>x\<leftarrow>xs. x * x)"
  proof -
    have "map (\<lambda>xi. js_mul xi xi) (map Fin xs) = map Fin (map (\<lambda>x. x * x) xs)" by simp
    then show ?thesis unfolding sumXX_eq using js_sum_Fin by metis
  qed
  have n: "real (length xs) \<noteq> 0" using ne by simp
  have den': "real (length xs) * (\<Sum>x\<leftarrow>xs. x * x) - sum_list xs * sum_list xs \<noteq> 0"
    using den by (simp add: ls_den_def)
  show ?thesis
    unfolding fit_def Let_def sxy sxx js_sum_Fin
    using n den' by (simp add: ls_slope_def ls_intercept_def ls_den_def)
qed

lemma predict_Fin:
  "predict \<lparr>slope = Fin a, intercept = Fin b\<rparr> (Fin x) = Fin (a * x + b)"
  by (simp add: predict_def)

lemma score_Fin:
  assumes len: "length xs = length ys" and ne: "ys \<noteq> []"
  shows "score \<lparr>slope = Fin (ls_slope xs ys), intercept = Fin (ls_intercept xs ys)\<rparr> (map Fin xs) (map Fin ys)
     = js_sub (Fin 1) (js_div (Fin (ss_res xs ys)) (Fin (ss_tot ys)))"
proof -
  let ?r = "\<lparr>slope = Fin (ls_slope xs ys), intercept = Fin (ls_intercept xs ys)\<rparr>"
  let ?p = "map (\<lambda>x. ls_slope xs ys * x + ls_intercept xs ys) xs"
  have pred: "map (predict ?r) (map Fin xs) = map Fin ?p"
    by (simp add: predict_Fin)
  have l: "length (map Fin ys) = length (map Fin ?p)" using len by simp
  have res: "foldl (\<lambda>total (yi, i). js_add total (Math_pow2 (js_sub yi (js_index (map Fin ?p) i)))) (Fin 0)
       (zip (map Fin ys) [0..<length (map Fin ys)]) = Fin (ss_res xs ys)"
  proof -
    have "map (\<lambda>(yi, pi). Math_pow2 (js_sub yi pi)) (zip (map Fin ys) (map Fin ?p))
        = map Fin (map (\<lambda>(y, p). (y - p)\<^sup>2) (zip ys ?p))"
      by (rule map2_pow_Fin)
    then show ?thesis
      unfolding ssRes_eq[OF l] ss_res_def using js_sum_Fin by metis
  qed
  have mean: "js_div (js_sum (map Fin ys)) (Fin (real (length (map Fin ys)))) = Fin (sum_list ys / real (length ys))"
    using ne by (simp add: js_sum_Fin)
  have tot: "foldl (\<lambda>total yi. js_add total (Math_pow2 (js_sub yi (Fin (sum_list ys / real (length ys)))))) (Fin 0)
       (map Fin ys) = Fin (ss_tot ys)"
  proof -
    have "map (\<lambda>yi. Math_pow2 (js_sub yi (Fin (sum_list ys / real (length ys))))) (map Fin ys)
        = map Fin (map (\<lambda>y. (y - sum_list ys / real (length ys))\<^sup>2) ys)"
      by simp
    then show ?thesis
      unfolding ssTot_eq ss_tot_def using js_sum_Fin by metis
  qed
  show ?thesis
    unfolding score_def Let_def pred mean res tot ..
qed

section \<open>The coefficient of determination lies between 0 and 1\<close>







lemma sum_idx: "2 * sum_list (idx n) = real n * (real n - 1)"
  by (induction n) (simp_all add: idx_def algebra_simps)

lemma sum_idx_sq: "6 * (\<Sum>x\<leftarrow>idx n. x * x) = real n * (real n - 1) * (2 * real n - 1)"
  by (induction n) (simp_all add: idx_def algebra_simps)

lemma ls_den_idx: "12 * ls_den (idx n) = (real n)\<^sup>2 * ((real n)\<^sup>2 - 1)"
proof -
  have "12 * ls_den (idx n) = 2 * real n * (6 * (\<Sum>x\<leftarrow>idx n. x * x)) - 3 * ((2 * sum_list (idx n)) * (2 * sum_list (idx n)))"
    by (simp add: ls_den_def idx_def algebra_simps)
  also have "\<dots> = (real n)\<^sup>2 * ((real n)\<^sup>2 - 1)"
    unfolding sum_idx sum_idx_sq by (simp add: power2_eq_square algebra_simps)
  finally show ?thesis .
qed

lemma ls_den_idx_pos: "2 \<le> n \<Longrightarrow> 0 < ls_den (idx n)"
proof -
  assume "2 \<le> n"
  then have "1 < real n" by simp
  then have "1 < (real n)\<^sup>2" by (simp add: power2_eq_square less_1_mult)
  then have "0 < (real n)\<^sup>2" and "0 < (real n)\<^sup>2 - 1" by linarith+
  then have "0 < (real n)\<^sup>2 * ((real n)\<^sup>2 - 1)" by (rule mult_pos_pos)
  then show ?thesis using ls_den_idx[of n] by linarith
qed



section \<open>Samples that are not finite\<close>









lemma indices_eq: "indices ts = map Fin (idx (length ts))"
  by (simp add: indices_def idx_def)


lemma length_idx [simp]: "length (idx n) = n"
  by (simp add: idx_def)



section \<open>Sign classes and the Cauchy-Schwarz inequality\<close>











section \<open>The sample correlation lies between -1 and 1\<close>














section \<open>The confidence formulas\<close>


lemma calculateTrend_slope: "trend_slope (calculateTrend ts) = slope (fit (indices ts) (map ts_value ts))"
  by (simp add: calculateTrend_def Let_def)


lemma regression_finite:
  assumes n: "2 \<le> length rs"
  shows "fit (map Fin (idx (length rs))) (map Fin rs)
           = \<lparr>slope = Fin (ls_slope (idx (length rs)) rs), intercept = Fin (ls_intercept (idx (length rs)) rs)\<rparr>"
    and "score (fit (map Fin (idx (length rs))) (map Fin rs)) (map Fin (idx (length rs))) (map Fin rs)
           = js_sub (Fin 1) (js_div (Fin (ss_res (idx (length rs)) rs)) (Fin (ss_tot rs)))"
proof -
  have len: "length (idx (length rs)) = length rs" by simp
  have den: "ls_den (idx (length rs)) \<noteq> 0" using ls_den_idx_pos[OF n] by simp
  have ne: "idx (length rs) \<noteq> []" "rs \<noteq> []" using n by (auto simp: idx_def)
  show f: "fit (map Fin (idx (length rs))) (map Fin rs)
           = \<lparr>slope = Fin (ls_slope (idx (length rs)) rs), intercept = Fin (ls_intercept (idx (length rs)) rs)\<rparr>"
    by (rule fit_Fin[OF len den ne(1)])
  show "score (fit (map Fin (idx (length rs))) (map Fin rs)) (map Fin (idx (length rs))) (map Fin rs)
           = js_sub (Fin 1) (js_div (Fin (ss_res (idx (length rs)) rs)) (Fin (ss_tot rs)))"
    unfolding f by (rule score_Fin[OF len ne(2)])
qed





section \<open>Totality and bounds of the analyzers\<close>












lemma insight_fields [simp]:
  "itype (trend_insight c t ts) = Trend"
  "confidence (trend_insight c t ts) = Math_min (js_mul (trend_rSquared t) (Fin 100)) (Fin 95)"
  "itype (correlation_insight c1 c2 r) = Correlation"
  "confidence (correlation_insight c1 c2 r) = js_mul (Math_abs r) (Fin 100)"
  "itype (anomaly_insight c an li vs m th) = Anomaly"
  "confidence (anomaly_insight c an li vs m th)
     = Math_min (js_mul (js_div (Fin (real (length an))) (Fin (real (length vs)))) (Fin 500)) (Fin 90)"
  "itype (segment_insight c1 c2 res k) = Segment"
  "confidence (segment_insight c1 c2 res k) = Fin 75"
  "itype (prediction_insight c rg p rs) = Prediction"
  "confidence (prediction_insight c rg p rs) = Math_min (js_mul rs (Fin 100)) (Fin 85)"
  by (simp_all add: trend_insight_def correlation_insight_def anomaly_insight_def
      segment_insight_def prediction_insight_def Let_def)













section \<open>The comparator sort\<close>













section \<open>The analyzers on datasets of records\<close>

text \<open>Without \<open>null\<close> elements no property read raises, and each per-column step is a plain function of the column.\<close>

lemma get_prop_cell: "is_record row \<Longrightarrow> get_prop row key = Inr (cell row key)"
  by (cases row) auto

lemma mapE_total: "\<forall>x\<in>set xs. f x = Inr (g x) \<Longrightarrow> mapE f xs = Inr (map g xs)"
  by (induction xs) auto


lemma all_records_D: "all_records d \<Longrightarrow> row \<in> set d \<Longrightarrow> is_record row"
  by (simp add: all_records_def list_all_iff)


lemma column_values_records:
  assumes "all_records d"
  shows "column_values h d column
       = Inr (filter (\<lambda>v. \<not> isNaN v) (map (\<lambda>row. parseFloat h (cell row column)) d))"
proof -
  have "mapE (\<lambda>row. case get_prop row column of Inl e \<Rightarrow> Inl e | Inr v \<Rightarrow> Inr (parseFloat h v)) d
      = Inr (map (\<lambda>row. parseFloat h (cell row column)) d)"
    by (rule mapE_total) (simp add: get_prop_cell all_records_D[OF assms])
  then show ?thesis by (simp add: column_values_def)
qed

lemma prepareTimeSeriesData_records:
  assumes "all_records d"
  shows "prepareTimeSeriesData h d dateColumn valueColumn
       = Inr (js_sort byDate
           (filter (\<lambda>point. \<not> isNaN (ts_date point) \<and> \<not> isNaN (ts_value point))
              (map (\<lambda>row. \<lparr>ts_date = Date_getTime h (cell row dateColumn),
                            ts_value = parseFloat h (cell row valueColumn)\<rparr>) d)))"
proof -
  have "mapE (\<lambda>row. case get_prop row dateColumn of Inl e \<Rightarrow> Inl e
                   | Inr dv \<Rightarrow> (case get_prop row valueColumn of Inl e \<Rightarrow> Inl e
                       | Inr v \<Rightarrow> Inr \<lparr>ts_date = Date_getTime h dv, ts_value = parseFloat h v\<rparr>)) d
      = Inr (map (\<lambda>row. \<lparr>ts_date = Date_getTime h (cell row dateColumn),
                            ts_value = parseFloat h (cell row valueColumn)\<rparr>) d)"
    by (rule mapE_total) (simp add: get_prop_cell all_records_D[OF assms])
  then show ?thesis by (simp add: prepareTimeSeriesData_def)
qed






lemma prepare_series: "all_records d \<Longrightarrow> prepareTimeSeriesData h d dc c = Inr (series h d dc c)"
  unfolding series_def by (rule prepareTimeSeriesData_records)

lemma trend_of_column_eq:
  assumes recs: "all_records d"
  shows "trend_of_column h d dc c = Inr
     (if 3 \<le> length (series h d dc c)
         \<and> js_gt (Math_abs (trend_slope (calculateTrend (series h d dc c)))) (Fin (1 / 100))
      then [trend_insight c (calculateTrend (series h d dc c)) (series h d dc c)] else [])"
  by (simp add: trend_of_column_def prepare_series[OF recs] Let_def not_less)


lemma calculateTrend_closed_form:
  assumes v: "map ts_value ts = map Fin ys" and n: "2 \<le> length ys"
  shows "calculateTrend ts =
     \<lparr>trend_slope = Fin (ls_slope (idx (length ys)) ys),
      trend_rSquared = js_sub (Fin 1) (js_div (Fin (ss_res (idx (length ys)) ys)) (Fin (ss_tot ys))),
      trend_direction = (if 0 < ls_slope (idx (length ys)) ys then ''Upward'' else ''Downward'')\<rparr>"
proof -
  have "length (map ts_value ts) = length (map Fin ys)" using v by simp
  then have l: "length ts = length ys" by simp
  have i: "indices ts = map Fin (idx (length ys))" unfolding indices_eq l ..
  have f: "fit (indices ts) (map ts_value ts)
      = \<lparr>slope = Fin (ls_slope (idx (length ys)) ys), intercept = Fin (ls_intercept (idx (length ys)) ys)\<rparr>"
    unfolding i v by (rule regression_finite(1)[OF n])
  have s: "score (fit (indices ts) (map ts_value ts)) (indices ts) (map ts_value ts)
      = js_sub (Fin 1) (js_div (Fin (ss_res (idx (length ys)) ys)) (Fin (ss_tot ys)))"
    unfolding i v by (rule regression_finite(2)[OF n])
  have s': "score \<lparr>slope = Fin (ls_slope (idx (length ys)) ys), intercept = Fin (ls_intercept (idx (length ys)) ys)\<rparr>
        (indices ts) (map ts_value ts)
      = js_sub (Fin 1) (js_div (Fin (ss_res (idx (length ys)) ys)) (Fin (ss_tot ys)))"
    using s unfolding f .
  show ?thesis unfolding calculateTrend_def Let_def f s' by simp
qed

lemma identifyTrends_eq:
  assumes "getNumericColumns h d = Inr cols" and "getDateColumn h d = Inr (Some dc)" and "dc \<noteq> []"
  shows "identifyTrends h d = Inr (concat (map (\<lambda>c. try_catch (trend_of_column h d dc c)) cols))"
  using assms by (simp add: identifyTrends_def)

lemma generatePredictions_eq:
  assumes "getNumericColumns h d = Inr cols" and "getDateColumn h d = Inr (Some dc)" and "dc \<noteq> []"
  shows "generatePredictions h d = Inr (if length d < 5 then []
           else concat (map (\<lambda>c. try_catch (prediction_of_column h d dc c)) cols))"
  using assms by (simp add: generatePredictions_def)

lemma isDateValue_number:
  assumes "v \<noteq> 0" and "\<bar>v\<bar> \<le> 8640000000000000"
  shows "isDateValue h (VNum (Fin v))"
  using assms by (simp add: isDateValue_def isNaN_def)

lemma isDateValue_too_large:
  assumes "8640000000000000 < \<bar>v\<bar>"
  shows "\<not> isDateValue h (VNum (Fin v))"
  using assms by (simp add: isDateValue_def isNaN_def)

lemma find_first:
  "x \<in> set xs \<Longrightarrow> P x \<Longrightarrow> \<forall>y\<in>set (takeWhile (\<lambda>y. y \<noteq> x) xs). \<not> P y \<Longrightarrow> find P xs = Some x"
proof (induction xs)
  case Nil
  then show ?case by simp
next
  case (Cons a xs)
  show ?case
  proof (cases "a = x")
    case True
    then show ?thesis using Cons.prems by simp
  next
    case False
    then have "\<not> P a" using Cons.prems(3) by simp
    moreover have "x \<in> set xs" using Cons.prems(1) False by simp
    moreover have "\<forall>y\<in>set (takeWhile (\<lambda>y. y \<noteq> x) xs). \<not> P y" using Cons.prems(3) False by simp
    ultimately show ?thesis using Cons.IH Cons.prems(2) by simp
  qed
qed

lemma find_exists: "x \<in> set xs \<Longrightarrow> P x \<Longrightarrow> \<exists>y. find P xs = Some y \<and> P y"
  by (induction xs) auto

lemma column_values_without_gaps:
  assumes recs: "all_records d"
    and full: "\<forall>row\<in>set d. \<not> isNaN (parseFloat h (cell row col1)) \<and> \<not> isNaN (parseFloat h (cell row col2))"
  shows "column_values h d col1 = Inr (fst (spec_paired_values h d col1 col2))"
    and "column_values h d col2 = Inr (snd (spec_paired_values h d col1 col2))"
proof -
  have f: "filter (\<lambda>row. \<not> isNaN (parseFloat h (cell row col1))
                 \<and> \<not> isNaN (parseFloat h (cell row col2))) d = d"
    using full by (simp add: filter_id_conv)
  have g: "filter (\<lambda>v. \<not> isNaN v) (map (\<lambda>row. parseFloat h (cell row c)) d)
         = map (\<lambda>row. parseFloat h (cell row c)) d" if "c = col1 \<or> c = col2" for c
    using full that by (auto simp: filter_id_conv)
  show "column_values h d col1 = Inr (fst (spec_paired_values h d col1 col2))"
    unfolding column_values_records[OF recs] spec_paired_values_def Let_def f by (simp add: g)
  show "column_values h d col2 = Inr (snd (spec_paired_values h d col1 col2))"
    unfolding column_values_records[OF recs] spec_paired_values_def Let_def f by (simp add: g)
qed

section \<open>Columns without variance\<close>






















section \<open>Evaluations on the example datasets\<close>

text \<open>The analyzers evaluated on the datasets defined above.\<close>

lemma js_trunc_int [simp]: "js_trunc (numeral n) = numeral n" "js_trunc 1 = 1" "js_trunc 0 = 0"
  by (simp_all add: js_trunc_def)

lemma unnamed_numeric_columns: "getNumericColumns h unnamed_date_data = Inr ['''', ''v'']"
  by (simp add: unnamed_date_data_def num_def lookup_def isNaN_def isFinite_def)

lemma unnamed_date_column: "getDateColumn h unnamed_date_data = Inr (Some '''')"
  by (simp add: unnamed_date_data_def num_def lookup_def isDateValue_def isNaN_def)

lemma unnamed_no_trend: "identifyTrends h unnamed_date_data = Inr []"
  by (simp add: identifyTrends_def unnamed_numeric_columns unnamed_date_column)

lemma unnamed_series: "series h unnamed_date_data '''' ''v'' =
   [\<lparr>ts_date = Fin 1, ts_value = Fin 10\<rparr>, \<lparr>ts_date = Fin 2, ts_value = Fin 20\<rparr>,
    \<lparr>ts_date = Fin 3, ts_value = Fin 30\<rparr>, \<lparr>ts_date = Fin 4, ts_value = Fin 40\<rparr>,
    \<lparr>ts_date = Fin 5, ts_value = Fin 50\<rparr>]"
  by (simp add: series_def unnamed_date_data_def num_def lookup_def isNaN_def js_sort_def byDate_def)

lemma idx5: "idx (Suc (Suc (Suc (Suc (Suc 0))))) = [0, 1, 2, 3, 4]"
  by (simp add: idx_def upt_rec)

lemma unnamed_values: "map ts_value (series h unnamed_date_data '''' ''v'') = map Fin [10, 20, 30, 40, 50]"
  by (simp add: unnamed_series)

lemma unnamed_indices: "indices (series h unnamed_date_data '''' ''v'') = map Fin (idx (length [10, 20, 30, 40, 50 :: real]))"
  by (simp add: unnamed_series indices_eq)

lemma unnamed_slope: "ls_slope [0, 1, 2, 3, 4] [10, 20, 30, 40, 50] = 10"
  by (simp add: ls_slope_def ls_den_def)

lemma unnamed_intercept: "ls_intercept [0, 1, 2, 3, 4] [10, 20, 30, 40, 50] = 10"
  by (simp add: ls_intercept_def unnamed_slope)

lemma unnamed_ss_res: "ss_res [0, 1, 2, 3, 4] [10, 20, 30, 40, 50] = 0"
  by (simp add: ss_res_def unnamed_slope unnamed_intercept)

lemma unnamed_ss_tot: "ss_tot [10, 20, 30, 40, 50] = 1000"
  by (simp add: ss_tot_def)

lemma unnamed_fit: "fit (indices (series h unnamed_date_data '''' ''v'')) (map ts_value (series h unnamed_date_data '''' ''v''))
    = \<lparr>slope = Fin 10, intercept = Fin 10\<rparr>"
  unfolding unnamed_values unnamed_indices
  using regression_finite(1)[of "[10, 20, 30, 40, 50]"] by (simp add: idx5 unnamed_slope unnamed_intercept)

lemma unnamed_score: "score (fit (indices (series h unnamed_date_data '''' ''v'')) (map ts_value (series h unnamed_date_data '''' ''v'')))
     (indices (series h unnamed_date_data '''' ''v'')) (map ts_value (series h unnamed_date_data '''' ''v'')) = Fin 1"
  unfolding unnamed_values unnamed_indices
  using regression_finite(2)[of "[10, 20, 30, 40, 50]"] by (simp add: idx5 unnamed_ss_res unnamed_ss_tot)

lemma unnamed_records: "all_records unnamed_date_data"
  by (simp add: all_records_def unnamed_date_data_def)

lemma misaligned_columns: "getNumericColumns h misaligned_data = Inr [''A'', ''B'']"
  by (simp add: misaligned_data_def num_def lookup_def isNaN_def isFinite_def)

lemma misaligned_records: "all_records misaligned_data"
  by (simp add: all_records_def misaligned_data_def)

lemma misaligned_values_A: "column_values h misaligned_data ''A'' = Inr [Fin 1, Fin 4, Fin 2, Fin 3]"
  unfolding column_values_records[OF misaligned_records]
  by (simp add: misaligned_data_def num_def lookup_def isNaN_def)

lemma misaligned_values_B: "column_values h misaligned_data ''B'' = Inr [Fin 1, Fin 2, Fin 3, Fin 0]"
  unfolding column_values_records[OF misaligned_records]
  by (simp add: misaligned_data_def num_def lookup_def isNaN_def)

lemma misaligned_correlation: "stats_sampleCorrelation [Fin 1, Fin 4, Fin 2, Fin 3] [Fin 1, Fin 2, Fin 3, Fin 0] = Inr (Fin 0)"
  by (simp add: stats_sampleCorrelation_def stats_sampleCovariance_def stats_sampleStandardDeviation_def
      stats_mean_def sumSquaredDeviations_def js_sum_def)

lemma misaligned_pair: "correlation_of_pair h misaligned_data ''A'' ''B'' = Inr []"
  by (simp add: correlation_of_pair_def misaligned_values_A misaligned_values_B misaligned_correlation)

lemma upt2: "[0..<2] = [0, 1]" "[0 + 1..<2] = [1]" "[1 + 1..<2] = []"
  by (simp_all add: upt_rec)

lemma misaligned_no_insight: "findCorrelations h misaligned_data = Inr []"
  by (simp add: findCorrelations_def misaligned_columns upt2 misaligned_pair try_catch_def)

lemma misaligned_spec_pairs: "spec_paired_values h misaligned_data ''A'' ''B'' = ([Fin 1, Fin 2, Fin 3], [Fin 1, Fin 2, Fin 3])"
  by (simp add: spec_paired_values_def misaligned_data_def num_def lookup_def isNaN_def)

lemma misaligned_spec_correlation: "stats_sampleCorrelation [Fin 1, Fin 2, Fin 3] [Fin 1, Fin 2, Fin 3] = Inr (Fin 1)"
  by (simp add: stats_sampleCorrelation_def stats_sampleCovariance_def stats_sampleStandardDeviation_def
      stats_mean_def sumSquaredDeviations_def js_sum_def)

lemma trend_data_records: "all_records trend_data"
  by (simp add: all_records_def trend_data_def)


lemma trend_data_columns: "getNumericColumns h trend_data = Inr [''t'', ''v'']"
  by (simp add: trend_data_def num_def lookup_def isNaN_def isFinite_def)

lemma trend_data_date: "getDateColumn h trend_data = Inr (Some ''t'')"
  by (simp add: trend_data_def num_def lookup_def isDateValue_def isNaN_def)

lemma trend_data_series_t: "series h trend_data ''t'' ''t'' =
   [\<lparr>ts_date = Fin 1, ts_value = Fin 1\<rparr>, \<lparr>ts_date = Fin 2, ts_value = Fin 2\<rparr>,
    \<lparr>ts_date = Fin 3, ts_value = Fin 3\<rparr>]"
  by (simp add: series_def trend_data_def num_def lookup_def isNaN_def js_sort_def byDate_def)

lemma trend_data_series_v: "series h trend_data ''t'' ''v'' =
   [\<lparr>ts_date = Fin 1, ts_value = Fin 10\<rparr>, \<lparr>ts_date = Fin 2, ts_value = Fin 20\<rparr>,
    \<lparr>ts_date = Fin 3, ts_value = Fin 30\<rparr>]"
  by (simp add: series_def trend_data_def num_def lookup_def isNaN_def js_sort_def byDate_def)

lemma idx3: "idx (Suc (Suc (Suc 0))) = [0, 1, 2]"
  by (simp add: idx_def upt_rec)

lemma trend_data_ls_t: "ls_slope [0, 1, 2] [1, 2, 3] = 1" "ls_intercept [0, 1, 2] [1, 2, 3] = 1"
  "ss_res [0, 1, 2] [1, 2, 3] = 0" "ss_tot [1, 2, 3] = 2"
proof -
  show s: "ls_slope [0, 1, 2] [1, 2, 3] = 1" by (simp add: ls_slope_def ls_den_def)
  show i: "ls_intercept [0, 1, 2] [1, 2, 3] = 1" by (simp add: ls_intercept_def s)
  show "ss_res [0, 1, 2] [1, 2, 3] = 0" by (simp add: ss_res_def s i)
  show "ss_tot [1, 2, 3] = 2" by (simp add: ss_tot_def)
qed

lemma trend_data_ls_v: "ls_slope [0, 1, 2] [10, 20, 30] = 10" "ls_intercept [0, 1, 2] [10, 20, 30] = 10"
  "ss_res [0, 1, 2] [10, 20, 30] = 0" "ss_tot [10, 20, 30] = 200"
proof -
  show s: "ls_slope [0, 1, 2] [10, 20, 30] = 10" by (simp add: ls_slope_def ls_den_def)
  show i: "ls_intercept [0, 1, 2] [10, 20, 30] = 10" by (simp add: ls_intercept_def s)
  show "ss_res [0, 1, 2] [10, 20, 30] = 0" by (simp add: ss_res_def s i)
  show "ss_tot [10, 20, 30] = 200" by (simp add: ss_tot_def)
qed

lemma calculateTrend_three:
  assumes "map ts_value ts = map Fin [a, b, c]"
  shows "calculateTrend ts =
     \<lparr>trend_slope = Fin (ls_slope [0, 1, 2] [a, b, c]),
      trend_rSquared = js_sub (Fin 1) (js_div (Fin (ss_res [0, 1, 2] [a, b, c])) (Fin (ss_tot [a, b, c]))),
      trend_direction = (if js_gt (Fin (ls_slope [0, 1, 2] [a, b, c])) (Fin 0) then ''Upward'' else ''Downward'')\<rparr>"
proof -
  have "length (map ts_value ts) = length (map Fin [a, b, c])" using assms by simp
  then have l: "length ts = length [a, b, c]" by simp
  have i: "indices ts = map Fin (idx (length [a, b, c]))" unfolding indices_eq l ..
  have f: "fit (indices ts) (map ts_value ts)
      = \<lparr>slope = Fin (ls_slope [0, 1, 2] [a, b, c]), intercept = Fin (ls_intercept [0, 1, 2] [a, b, c])\<rparr>"
    unfolding i assms using regression_finite(1)[of "[a, b, c]"] by (simp add: idx3)
  have s: "score (fit (indices ts) (map ts_value ts)) (indices ts) (map ts_value ts)
      = js_sub (Fin 1) (js_div (Fin (ss_res [0, 1, 2] [a, b, c])) (Fin (ss_tot [a, b, c])))"
    unfolding i assms using regression_finite(2)[of "[a, b, c]"] by (simp add: idx3)
  have s': "score \<lparr>slope = Fin (ls_slope [0, 1, 2] [a, b, c]), intercept = Fin (ls_intercept [0, 1, 2] [a, b, c])\<rparr>
        (indices ts) (map ts_value ts)
      = js_sub (Fin 1) (js_div (Fin (ss_res [0, 1, 2] [a, b, c])) (Fin (ss_tot [a, b, c])))"
    using s unfolding f .
  show ?thesis unfolding calculateTrend_def Let_def f s' by simp
qed

lemma trend_data_trend_t: "trend_of_column h trend_data ''t'' ''t'' = Inr [example_trend_t]"
  unfolding trend_of_column_eq[OF trend_data_records]
  using calculateTrend_three[of "series h trend_data ''t'' ''t''" 1 2 3]
  by (simp add: trend_data_series_t trend_data_ls_t trend_insight_def example_trend_t_def Math_min_def)

lemma trend_data_trend_v: "trend_of_column h trend_data ''t'' ''v'' = Inr [example_trend_v]"
  unfolding trend_of_column_eq[OF trend_data_records]
  using calculateTrend_three[of "series h trend_data ''t'' ''v''" 10 20 30]
  by (simp add: trend_data_series_v trend_data_ls_v trend_insight_def example_trend_v_def Math_min_def)

lemma trend_data_trends: "identifyTrends h trend_data = Inr [example_trend_t, example_trend_v]"
  unfolding identifyTrends_eq[OF trend_data_columns trend_data_date, simplified]
  by (simp add: trend_data_trend_t trend_data_trend_v try_catch_def)

























section \<open>Properties of the analysis engine\<close>

subsection \<open>The result is the stable sort of the concatenation\<close>



subsection \<open>The entry point never raises\<close>

text \<open>
  Claim C2. For every dataset, also one with \<open>null\<close> elements, and every behaviour of
  the host (a \<open>kmeans\<close> that throws included), the entry point returns a sequence of
  insights and raises nothing; for the empty dataset the sequence is empty.
\<close>

theorem generateInsights_never_raises:
  "(\<exists>insights. generateInsights h d = Inr insights) \<and> generateInsights h [] = Inr []"
  by (simp add: generateInsights_def)

subsection \<open>Faults stay inside their analyzer\<close>



subsection \<open>Confidence bounds\<close>



subsection \<open>Trends\<close>

text \<open>
  Claim C5. The dataset \<open>unnamed_date_data\<close> has a date column, the one named by the
  empty string, and the numeric column \<open>v\<close>. The series of \<open>v\<close> against that date column
  has five points and its least-squares slope is 10, above the threshold 0.01. The trend
  analyzer nevertheless returns no insight: it reads the empty column name as a missing
  date column.
\<close>

theorem identifyTrends_unnamed_date_column:
  "getDateColumn h unnamed_date_data = Inr (Some '''')
   \<and> getNumericColumns h unnamed_date_data = Inr ['''', ''v'']
   \<and> (\<exists>ts. prepareTimeSeriesData h unnamed_date_data '''' ''v'' = Inr ts \<and> length ts = 5
          \<and> trend_slope (calculateTrend ts) = Fin 10
          \<and> js_gt (Math_abs (trend_slope (calculateTrend ts))) (Fin (1 / 100)))
   \<and> identifyTrends h unnamed_date_data = Inr []"
proof -
  have "prepareTimeSeriesData h unnamed_date_data '''' ''v'' = Inr (series h unnamed_date_data '''' ''v'')"
    by (rule prepare_series[OF unnamed_records])
  moreover have "length (series h unnamed_date_data '''' ''v'') = 5" by (simp add: unnamed_series)
  moreover have "trend_slope (calculateTrend (series h unnamed_date_data '''' ''v'')) = Fin 10"
    by (simp add: calculateTrend_slope unnamed_fit)
  ultimately show ?thesis using unnamed_numeric_columns unnamed_date_column unnamed_no_trend by simp
qed

subsection \<open>Correlations\<close>

text \<open>
  Claim C6. In \<open>misaligned_data\<close> the columns \<open>A\<close> and \<open>B\<close> are numeric. Over the three
  rows where both values parse as numbers the sample correlation is 1, above the threshold
  0.5. The analyzer filters each column on its own, obtains two lists of four values that
  pair values of different rows, computes the correlation 0 and returns no insight.
\<close>

theorem findCorrelations_misaligned_pairs:
  "getNumericColumns h misaligned_data = Inr [''A'', ''B'']
   \<and> spec_paired_values h misaligned_data ''A'' ''B'' = ([Fin 1, Fin 2, Fin 3], [Fin 1, Fin 2, Fin 3])
   \<and> stats_sampleCorrelation [Fin 1, Fin 2, Fin 3] [Fin 1, Fin 2, Fin 3] = Inr (Fin 1)
   \<and> js_gt (Math_abs (Fin 1)) (Fin (1 / 2))
   \<and> column_values h misaligned_data ''A'' = Inr [Fin 1, Fin 4, Fin 2, Fin 3]
   \<and> column_values h misaligned_data ''B'' = Inr [Fin 1, Fin 2, Fin 3, Fin 0]
   \<and> stats_sampleCorrelation [Fin 1, Fin 4, Fin 2, Fin 3] [Fin 1, Fin 2, Fin 3, Fin 0] = Inr (Fin 0)
   \<and> findCorrelations h misaligned_data = Inr []"
  using misaligned_columns misaligned_spec_pairs misaligned_spec_correlation misaligned_values_A misaligned_values_B misaligned_correlation misaligned_no_insight by simp

subsection \<open>Anomalies\<close>



subsection \<open>Predictions\<close>

text \<open>
  Claim C8. In \<open>unnamed_date_data\<close> the series of the numeric column \<open>v\<close> against the
  date column, the one named by the empty string, has five points and lies on a line, so
  that the coefficient of determination is 1, above the threshold 0.3. The prediction
  analyzer nevertheless returns no insight: it reads the empty column name as a missing
  date column.
\<close>

theorem generatePredictions_unnamed_date_column:
  "getDateColumn h unnamed_date_data = Inr (Some '''')
   \<and> getNumericColumns h unnamed_date_data = Inr ['''', ''v'']
   \<and> (\<exists>ts. prepareTimeSeriesData h unnamed_date_data '''' ''v'' = Inr ts \<and> length ts = 5
          \<and> score (fit (indices ts) (map ts_value ts)) (indices ts) (map ts_value ts) = Fin 1
          \<and> js_gt (score (fit (indices ts) (map ts_value ts)) (indices ts) (map ts_value ts)) (Fin (3 / 10)))
   \<and> generatePredictions h unnamed_date_data = Inr []"
proof -
  have "prepareTimeSeriesData h unnamed_date_data '''' ''v'' = Inr (series h unnamed_date_data '''' ''v'')"
    by (rule prepare_series[OF unnamed_records])
  moreover have "length (series h unnamed_date_data '''' ''v'') = 5" by (simp add: unnamed_series)
  moreover note unnamed_score[of h]
  moreover have "generatePredictions h unnamed_date_data = Inr []"
    by (simp add: generatePredictions_def unnamed_numeric_columns unnamed_date_column)
  ultimately show ?thesis using unnamed_numeric_columns unnamed_date_column by simp
qed

subsection \<open>Segmentation\<close>



subsection \<open>A numeric column can be the date column\<close>

text \<open>
  Claim C10, as the code has it. Let the first record hold under \<open>key\<close> a finite number
  \<open>v\<close> that is not zero and whose magnitude is at most \<open>8.64e15\<close>, the largest time value.
  Then \<open>key\<close> is a numeric column and its value passes the date test, so the dataset has
  a date column; \<open>key\<close> is that column when no earlier key passes the date test. When \<open>key\<close>
  is the date column and is not the empty string, the trend and prediction analyzers run
  their per-column step for every numeric column, \<open>key\<close> included, against \<open>key\<close> as the
  time axis. The number 0 and the empty string are not date-like.
\<close>

theorem numeric_column_as_date_column:
  assumes d: "d = Row firstRow # rest" and key: "key \<in> set (map fst firstRow)"
    and v: "lookup firstRow key = VNum (Fin v)" and nz: "v \<noteq> 0"
    and small: "\<bar>v\<bar> \<le> 8640000000000000"
  shows "\<exists>cols. getNumericColumns h d = Inr cols \<and> key \<in> set cols
      \<and> isDateValue h (lookup firstRow key)
      \<and> (\<exists>dc. getDateColumn h d = Inr (Some dc) \<and> isDateValue h (lookup firstRow dc))
      \<and> ((\<forall>k\<in>set (takeWhile (\<lambda>k. k \<noteq> key) (map fst firstRow)). \<not> isDateValue h (lookup firstRow k))
           \<longrightarrow> getDateColumn h d = Inr (Some key))
      \<and> (getDateColumn h d = Inr (Some key) \<and> key \<noteq> [] \<longrightarrow>
            identifyTrends h d = Inr (concat (map (\<lambda>c. try_catch (trend_of_column h d key c)) cols))
          \<and> generatePredictions h d = Inr (if length d < 5 then []
               else concat (map (\<lambda>c. try_catch (prediction_of_column h d key c)) cols)))
      \<and> \<not> isDateValue h (VNum (Fin 0)) \<and> \<not> isDateValue h (VStr [])"
proof -
  define cols where "cols = filter (\<lambda>key. \<not> isNaN (parseFloat h (lookup firstRow key))
                        \<and> isFinite h (lookup firstRow key)) (map fst firstRow)"
  have g: "getNumericColumns h d = Inr cols" by (simp add: d cols_def)
  have kc: "key \<in> set cols" using key v by (auto simp: cols_def isNaN_def isFinite_def)
  have dv: "isDateValue h (lookup firstRow key)"
    unfolding v by (rule isDateValue_number[OF nz small])
  have gd: "getDateColumn h d = Inr (find (\<lambda>key. isDateValue h (lookup firstRow key)) (map fst firstRow))"
    by (simp add: d)
  have "\<exists>y. find (\<lambda>key. isDateValue h (lookup firstRow key)) (map fst firstRow) = Some y
          \<and> isDateValue h (lookup firstRow y)"
    using key dv by (rule find_exists)
  then have ex: "\<exists>dc. getDateColumn h d = Inr (Some dc) \<and> isDateValue h (lookup firstRow dc)"
    unfolding gd by simp
  have fst: "(\<forall>k\<in>set (takeWhile (\<lambda>k. k \<noteq> key) (map fst firstRow)). \<not> isDateValue h (lookup firstRow k))
           \<longrightarrow> getDateColumn h d = Inr (Some key)"
  proof
    assume "\<forall>k\<in>set (takeWhile (\<lambda>k. k \<noteq> key) (map fst firstRow)). \<not> isDateValue h (lookup firstRow k)"
    with key dv have "find (\<lambda>key. isDateValue h (lookup firstRow key)) (map fst firstRow) = Some key"
      by (rule find_first)
    then show "getDateColumn h d = Inr (Some key)" unfolding gd by simp
  qed
  have an: "getDateColumn h d = Inr (Some key) \<and> key \<noteq> [] \<longrightarrow>
            identifyTrends h d = Inr (concat (map (\<lambda>c. try_catch (trend_of_column h d key c)) cols))
          \<and> generatePredictions h d = Inr (if length d < 5 then []
               else concat (map (\<lambda>c. try_catch (prediction_of_column h d key c)) cols))"
    using identifyTrends_eq[OF g] generatePredictions_eq[OF g] by blast
  have falsy: "\<not> isDateValue h (VNum (Fin 0))" "\<not> isDateValue h (VStr [])"
    by (simp_all add: isDateValue_def)
  show ?thesis using g kc dv ex fst an falsy by blast
qed

text \<open>In \<open>trend_data\<close> the column \<open>t\<close> is numeric, is the date column, and gets its own trend insight.\<close>

theorem numeric_column_as_date_column_witness:
  "trend_data = Row [(''t'', num 1), (''v'', num 10)] # tl trend_data
   \<and> ''t'' \<in> set (map fst [(''t'', num 1), (''v'', num 10)])
   \<and> lookup [(''t'', num 1), (''v'', num 10)] ''t'' = VNum (Fin 1)
   \<and> (1 :: real) \<noteq> 0 \<and> \<bar>1 :: real\<bar> \<le> 8640000000000000
   \<and> getNumericColumns sample_host trend_data = Inr [''t'', ''v'']
   \<and> isDateValue sample_host (num 1)
   \<and> getDateColumn sample_host trend_data = Inr (Some ''t'')
   \<and> identifyTrends sample_host trend_data
       = Inr (concat (map (\<lambda>c. try_catch (trend_of_column sample_host trend_data ''t'' c)) [''t'', ''v'']))
   \<and> identifyTrends sample_host trend_data = Inr [example_trend_t, example_trend_v]"
proof -
  have d: "trend_data = Row [(''t'', num 1), (''v'', num 10)] # tl trend_data"
    by (simp add: trend_data_def)
  have k: "''t'' \<in> set (map fst [(''t'', num 1), (''v'', num 10)])" by simp
  have v: "lookup [(''t'', num 1), (''v'', num 10)] ''t'' = VNum (Fin 1)"
    by (simp add: lookup_def num_def)
  have nz: "(1 :: real) \<noteq> 0" and small: "\<bar>1 :: real\<bar> \<le> 8640000000000000" by simp_all
  from numeric_column_as_date_column[OF d k v nz small, of sample_host] obtain cols where c:
    "getNumericColumns sample_host trend_data = Inr cols"
    "isDateValue sample_host (lookup [(''t'', num 1), (''v'', num 10)] ''t'')"
    "(\<forall>k\<in>set (takeWhile (\<lambda>k. k \<noteq> ''t'') (map fst [(''t'', num 1), (''v'', num 10)])).
         \<not> isDateValue sample_host (lookup [(''t'', num 1), (''v'', num 10)] k))
       \<longrightarrow> getDateColumn sample_host trend_data = Inr (Some ''t'')"
    "getDateColumn sample_host trend_data = Inr (Some ''t'') \<and> ''t'' \<noteq> [] \<longrightarrow>
       identifyTrends sample_host trend_data
         = Inr (concat (map (\<lambda>c. try_catch (trend_of_column sample_host trend_data ''t'' c)) cols))"
    by blast
  from c(1) have cols: "cols = [''t'', ''v'']" by (simp add: trend_data_columns)
  from c(3) have dc: "getDateColumn sample_host trend_data = Inr (Some ''t'')" by simp
  from c(4) dc have tr: "identifyTrends sample_host trend_data
       = Inr (concat (map (\<lambda>c. try_catch (trend_of_column sample_host trend_data ''t'' c)) [''t'', ''v'']))"
    unfolding cols by simp
  from c(2) have dv: "isDateValue sample_host (num 1)" by (simp add: lookup_def num_def)
  show ?thesis using d k v nz small trend_data_columns[of sample_host] dv dc tr trend_data_trends[of sample_host]
    by blast
qed

text \<open>
  The bound on the magnitude is needed: the number \<open>1e16\<close> is truthy and finite, its column
  is numeric, and it is not a valid time value, so the dataset has no date column.
\<close>

theorem large_number_is_no_date:
  "getNumericColumns sample_host large_number_data = Inr [''big'']
   \<and> truthy (num 10000000000000000) \<and> number_isFinite (Fin 10000000000000000)
   \<and> \<not> isDateValue sample_host (num 10000000000000000)
   \<and> getDateColumn sample_host large_number_data = Inr None"
  by (simp add: large_number_data_def num_def lookup_def isNaN_def isFinite_def isDateValue_def)

end
